theory Spec2Isabelle
  imports Main "HOL-Library.Sublist"
begin

section \<open>The environment file of the coffee shop frontend\<close>

text \<open>
  The repository fragment is one TypeScript module,
  \<^verbatim>\<open>src/frontend/src/environments/environment.ts\<close>:
  \<^verbatim>\<open>
  export const environment = {
    production: false,
    apiServerUrl: 'http://127.0.0.1:5000',
    auth0: {
      url: 'udacity2020.eu',
      audience: 'coffee_shop_api',
      clientId: 'XzfZoHMGLBsS6YoHQq9MJYu56QwhA49o',
      callbackURL: 'http://127.0.0.1:8100/callback',
    }
  };
  \<close>
  The module is embedded twice: as the value it denotes (\<open>environment\<close>), and as the
  syntax tree of its single declaration (\<open>environment_module\<close>) together with an
  evaluator for the fragment of the language that the statements about evaluation,
  failure and control flow are about.
\<close>

subsection \<open>Values\<close>

text \<open>
  The values an object literal of this kind can denote: booleans, strings, and objects.
  An object is an association list, in the order in which its properties were created.
\<close>

datatype jsval = VBool bool | VStr string | VObj "(string \<times> jsval) list"

text \<open>The exported constant, field by field as the source writes it.\<close>

definition auth0 :: jsval where
  "auth0 = VObj
     [(''url'', VStr ''udacity2020.eu''),
      (''audience'', VStr ''coffee_shop_api''),
      (''clientId'', VStr ''XzfZoHMGLBsS6YoHQq9MJYu56QwhA49o''),
      (''callbackURL'', VStr ''http://127.0.0.1:8100/callback'')]"

definition environment :: jsval where
  "environment = VObj
     [(''production'', VBool False),
      (''apiServerUrl'', VStr ''http://127.0.0.1:5000''),
      (''auth0'', auth0)]"

text \<open>
  Looking up a field of an object by name, \<open>v.k\<close>; \<open>None\<close> stands for the
  \<^verbatim>\<open>undefined\<close> of the language. A scalar has no fields: the properties the language
  itself gives to a string (its length, its characters) are no part of the configuration
  and are not modelled.
\<close>

fun get :: "string \<Rightarrow> jsval \<Rightarrow> jsval option" where
  "get k (VObj fs) = map_of fs k"
| "get k (VBool b) = None"
| "get k (VStr s) = None"

text \<open>A chain of property accesses, \<open>v.k1.k2...\<close>.\<close>

fun get_path :: "string list \<Rightarrow> jsval \<Rightarrow> jsval option" where
  "get_path [] v = Some v"
| "get_path (k # ks) v = (case get k v of None \<Rightarrow> None | Some w \<Rightarrow> get_path ks w)"

fun is_scalar :: "jsval \<Rightarrow> bool" where
  "is_scalar (VBool b) = True"
| "is_scalar (VStr s) = True"
| "is_scalar (VObj fs) = False"

text \<open>The own properties of an object, and their names.\<close>

fun fields :: "jsval \<Rightarrow> (string \<times> jsval) list" where
  "fields (VObj fs) = fs"
| "fields (VBool b) = []"
| "fields (VStr s) = []"

definition keys :: "jsval \<Rightarrow> string list" where
  "keys v = map fst (fields v)"

text \<open>
  The scalar leaves of a value, each with the path of property names that leads to it,
  in source order.
\<close>

fun leaves :: "jsval \<Rightarrow> (string list \<times> jsval) list"
  and leaves_fields :: "(string \<times> jsval) list \<Rightarrow> (string list \<times> jsval) list" where
  "leaves (VBool b) = [([], VBool b)]"
| "leaves (VStr s) = [([], VStr s)]"
| "leaves (VObj fs) = leaves_fields fs"
| "leaves_fields [] = []"
| "leaves_fields ((k, v) # fs) = map (\<lambda>(p, x). (k # p, x)) (leaves v) @ leaves_fields fs"

text \<open>The string-valued leaves only.\<close>

fun string_of :: "jsval \<Rightarrow> string option" where
  "string_of (VStr s) = Some s"
| "string_of (VBool b) = None"
| "string_of (VObj fs) = None"

definition string_fields :: "jsval \<Rightarrow> (string list \<times> string) list" where
  "string_fields v =
     concat (map (\<lambda>(p, x). case string_of x of None \<Rightarrow> [] | Some s \<Rightarrow> [(p, s)]) (leaves v))"

subsection \<open>Kinds of values\<close>

datatype kind = KBool | KStr | KObj

fun kind_of :: "jsval \<Rightarrow> kind" where
  "kind_of (VBool b) = KBool"
| "kind_of (VStr s) = KStr"
| "kind_of (VObj fs) = KObj"

subsection \<open>Vocabulary for the network targets\<close>

text \<open>
  The module itself contains no function on URLs: the definitions of this subsection
  only give a meaning to ``URL-valued'', ``host'' and ``loopback'' in the statements
  below.

  A string counts as a URL when it carries an \<^verbatim>\<open>http\<close> or \<^verbatim>\<open>https\<close> scheme. Its
  authority is what follows the scheme up to the first slash, backslash, question mark
  or hash; the host is the authority without the user information (all up to the last
  \<^verbatim>\<open>@\<close>) and without the port (all from the first colon, or what follows the closing
  bracket of a bracketed address). Case folding and percent-decoding of the host are not
  modelled.
\<close>

definition is_url :: "string \<Rightarrow> bool" where
  "is_url s = (prefix ''http://'' s \<or> prefix ''https://'' s)"

definition url_authority :: "string \<Rightarrow> string" where
  "url_authority s =
     takeWhile (\<lambda>c. c \<noteq> CHR ''/'' \<and> c \<noteq> CHR 0x5C \<and> c \<noteq> CHR ''?'' \<and> c \<noteq> CHR ''#'')
       (if prefix ''https://'' s then drop 8 s else drop 7 s)"

definition after_userinfo :: "string \<Rightarrow> string" where
  "after_userinfo a = rev (takeWhile (\<lambda>c. c \<noteq> CHR ''@'') (rev a))"

fun strip_port :: "string \<Rightarrow> string" where
  "strip_port [] = []"
| "strip_port (c # cs) =
     (if c = CHR ''[''
      then c # takeWhile (\<lambda>d. d \<noteq> CHR '']'') cs @ take 1 (dropWhile (\<lambda>d. d \<noteq> CHR '']'') cs)
      else takeWhile (\<lambda>d. d \<noteq> CHR '':'') (c # cs))"

definition url_host :: "string \<Rightarrow> string" where
  "url_host s = strip_port (after_userinfo (url_authority s))"

text \<open>
  The host that a string of the configuration names: the host of a URL, and the string
  itself when it is a bare domain name, as the value of \<open>auth0.url\<close> is (``the auth0
  domain prefix'', says the source).
\<close>

definition target_host :: "string \<Rightarrow> string" where
  "target_host s = (if is_url s then url_host s else s)"

text \<open>
  A loopback host is \<^verbatim>\<open>localhost\<close>, the address \<^verbatim>\<open>[::1]\<close>, or a dotted number that starts
  with \<^verbatim>\<open>127.\<close>, of which \<^verbatim>\<open>127.0.0.1\<close> is the usual one.
\<close>

fun dotted_number :: "string \<Rightarrow> bool" where
  "dotted_number [] = True"
| "dotted_number (c # cs) = (c \<in> set ''0123456789.'' \<and> dotted_number cs)"

definition is_loopback :: "string \<Rightarrow> bool" where
  "is_loopback h =
     (h = ''localhost'' \<or> h = ''[::1]'' \<or> (prefix ''127.'' h \<and> dotted_number h))"

text \<open>The host named by the string field at a path, and whether it is a loopback host.\<close>

definition host_at :: "string list \<Rightarrow> jsval \<Rightarrow> string option" where
  "host_at p v = map_option target_host (Option.bind (get_path p v) string_of)"

definition loopback_at :: "string list \<Rightarrow> jsval \<Rightarrow> bool" where
  "loopback_at p v = (case host_at p v of None \<Rightarrow> False | Some h \<Rightarrow> is_loopback h)"

subsection \<open>Syntax of the module\<close>

text \<open>
  The fragment of the language around the file: the three expression forms the file
  uses (boolean, string and object literals), and the forms whose absence the statements
  about it assert: a reference to an identifier of the surrounding context, a
  conditional expression, \<^verbatim>\<open>throw\<close> and \<^verbatim>\<open>try ... catch\<close>.
\<close>

datatype expr =
    BoolLit bool
  | StrLit string
  | ObjLit "(string \<times> expr) list"
  | Ident string
  | Cond expr expr expr

datatype stmt =
    Const string expr
  | Throw expr
  | TryCatch "stmt list" "stmt list"

datatype item = ExportConst string expr | Plain stmt

type_synonym module = "item list"

text \<open>The file: one exported constant, initialised by an object literal.\<close>

definition environment_module :: module where
  "environment_module =
     [ExportConst ''environment''
        (ObjLit
           [(''production'', BoolLit False),
            (''apiServerUrl'', StrLit ''http://127.0.0.1:5000''),
            (''auth0'',
               ObjLit
                 [(''url'', StrLit ''udacity2020.eu''),
                  (''audience'', StrLit ''coffee_shop_api''),
                  (''clientId'', StrLit ''XzfZoHMGLBsS6YoHQq9MJYu56QwhA49o''),
                  (''callbackURL'', StrLit ''http://127.0.0.1:8100/callback'')])])]"

subsection \<open>Evaluation\<close>

datatype error = ReferenceError string | Thrown jsval

text \<open>The context of an evaluation: the bindings visible to the module.\<close>

type_synonym scope = "(string \<times> jsval) list"

text \<open>
  Defining a property of an object under construction: a name already present keeps its
  position and takes the new value, a new name goes to the end.
\<close>

fun put :: "string \<Rightarrow> jsval \<Rightarrow> (string \<times> jsval) list \<Rightarrow> (string \<times> jsval) list" where
  "put k v [] = [(k, v)]"
| "put k v ((k', v') # fs) = (if k = k' then (k, v) # fs else (k', v') # put k v fs)"

fun truthy :: "jsval \<Rightarrow> bool" where
  "truthy (VBool b) = b"
| "truthy (VStr s) = (s \<noteq> [])"
| "truthy (VObj fs) = True"

text \<open>
  Expressions evaluate to a value or raise: an unbound identifier is a reference error.
  The properties of an object literal are evaluated from left to right.
\<close>

fun eval :: "scope \<Rightarrow> expr \<Rightarrow> error + jsval"
  and eval_props :: "scope \<Rightarrow> (string \<times> expr) list \<Rightarrow> (string \<times> jsval) list
                       \<Rightarrow> error + (string \<times> jsval) list" where
  "eval c (BoolLit b) = Inr (VBool b)"
| "eval c (StrLit s) = Inr (VStr s)"
| "eval c (ObjLit ps) =
     (case eval_props c ps [] of Inl err \<Rightarrow> Inl err | Inr fs \<Rightarrow> Inr (VObj fs))"
| "eval c (Ident x) =
     (case map_of c x of None \<Rightarrow> Inl (ReferenceError x) | Some v \<Rightarrow> Inr v)"
| "eval c (Cond t a b) =
     (case eval c t of Inl err \<Rightarrow> Inl err
      | Inr v \<Rightarrow> if truthy v then eval c a else eval c b)"
| "eval_props c [] acc = Inr acc"
| "eval_props c ((k, e) # ps) acc =
     (case eval c e of Inl err \<Rightarrow> Inl err | Inr v \<Rightarrow> eval_props c ps (put k v acc))"

text \<open>
  Statements return the scope they leave behind, or raise. A block has its own scope:
  what \<^verbatim>\<open>try\<close> and \<^verbatim>\<open>catch\<close> blocks declare is gone after them, and an error of the
  \<^verbatim>\<open>try\<close> block is handled by running the \<^verbatim>\<open>catch\<close> block (written without a
  binding for the error). What the compiler rejects before any evaluation, such as a
  second declaration of a name in one block, is not modelled.
\<close>

fun exec :: "scope \<Rightarrow> stmt \<Rightarrow> error + scope"
  and exec_block :: "scope \<Rightarrow> stmt list \<Rightarrow> error + scope" where
  "exec c (Const x e) =
     (case eval c e of Inl err \<Rightarrow> Inl err | Inr v \<Rightarrow> Inr ((x, v) # c))"
| "exec c (Throw e) =
     (case eval c e of Inl err \<Rightarrow> Inl err | Inr v \<Rightarrow> Inl (Thrown v))"
| "exec c (TryCatch body handler) =
     (case exec_block c body of
        Inr c' \<Rightarrow> Inr c
      | Inl err \<Rightarrow>
          (case exec_block c handler of Inl err' \<Rightarrow> Inl err' | Inr c' \<Rightarrow> Inr c))"
| "exec_block c [] = Inr c"
| "exec_block c (s # ss) =
     (case exec c s of Inl err \<Rightarrow> Inl err | Inr c' \<Rightarrow> exec_block c' ss)"

text \<open>
  Running a module in a context: its items in order; the result is the list of its
  exports, by name, or the error that stopped it.
\<close>

fun run_items :: "scope \<Rightarrow> module \<Rightarrow> (string \<times> jsval) list \<Rightarrow> error + (string \<times> jsval) list" where
  "run_items c [] ex = Inr ex"
| "run_items c (ExportConst x e # m) ex =
     (case eval c e of Inl err \<Rightarrow> Inl err
      | Inr v \<Rightarrow> run_items ((x, v) # c) m (ex @ [(x, v)]))"
| "run_items c (Plain s # m) ex =
     (case exec c s of Inl err \<Rightarrow> Inl err | Inr c' \<Rightarrow> run_items c' m ex)"

definition run_module :: "scope \<Rightarrow> module \<Rightarrow> error + (string \<times> jsval) list" where
  "run_module c m = run_items c m []"

subsection \<open>Static modules\<close>

text \<open>
  An expression is static when it is built from literals alone: no identifier is read
  and no condition is tested.
\<close>

fun static_expr :: "expr \<Rightarrow> bool"
  and static_props :: "(string \<times> expr) list \<Rightarrow> bool" where
  "static_expr (BoolLit b) = True"
| "static_expr (StrLit s) = True"
| "static_expr (ObjLit ps) = static_props ps"
| "static_expr (Ident x) = False"
| "static_expr (Cond t a b) = False"
| "static_props [] = True"
| "static_props ((k, e) # ps) = (static_expr e \<and> static_props ps)"

fun static_stmt :: "stmt \<Rightarrow> bool" where
  "static_stmt (Const x e) = static_expr e"
| "static_stmt (Throw e) = False"
| "static_stmt (TryCatch body handler) = False"

fun static_item :: "item \<Rightarrow> bool" where
  "static_item (ExportConst x e) = static_expr e"
| "static_item (Plain s) = static_stmt s"

fun static_module :: "module \<Rightarrow> bool" where
  "static_module [] = True"
| "static_module (i # m) = (static_item i \<and> static_module m)"

text \<open>The statements that raise or handle an error, at any depth.\<close>

fun raises :: "stmt \<Rightarrow> bool"
  and raises_block :: "stmt list \<Rightarrow> bool" where
  "raises (Const x e) = False"
| "raises (Throw e) = True"
| "raises (TryCatch body handler) = (raises_block body \<or> raises_block handler)"
| "raises_block [] = False"
| "raises_block (s # ss) = (raises s \<or> raises_block ss)"

fun handles :: "stmt \<Rightarrow> bool" where
  "handles (Const x e) = False"
| "handles (Throw e) = False"
| "handles (TryCatch body handler) = True"

fun failure_items :: "module \<Rightarrow> item list" where
  "failure_items [] = []"
| "failure_items (ExportConst x e # m) = failure_items m"
| "failure_items (Plain s # m) =
     (if raises s \<or> handles s then Plain s # failure_items m else failure_items m)"

text \<open>The names a module exports, in order.\<close>

fun export_names :: "module \<Rightarrow> string list" where
  "export_names [] = []"
| "export_names (ExportConst x e # m) = x # export_names m"
| "export_names (Plain s # m) = export_names m"

section \<open>Properties\<close>

subsection \<open>Evaluating static modules\<close>

text \<open>
  A static expression has the same value in every context, and its evaluation cannot
  raise. Both facts go by the recursion of \<open>static_expr\<close>, for an expression and
  for the properties of an object literal together.
\<close>

lemma static_eval:
  "static_expr e \<Longrightarrow> eval c1 e = eval c2 e"
  "static_props ps \<Longrightarrow> eval_props c1 ps acc = eval_props c2 ps acc"
  by (induction e and ps arbitrary: and acc rule: static_expr_static_props.induct)
     (auto split: sum.splits)

lemma static_total:
  "static_expr e \<Longrightarrow> \<exists>v. eval c e = Inr v"
  "static_props ps \<Longrightarrow> \<exists>fs. eval_props c ps acc = Inr fs"
proof (induction e and ps arbitrary: and acc rule: static_expr_static_props.induct)
  case (3 ps)
  then obtain fs where "eval_props c ps [] = Inr fs" by auto
  then show ?case by simp
next
  case (7 k e ps)
  then obtain v where "eval c e = Inr v" by auto
  with 7 show ?case by simp
qed simp_all

text \<open>The same for a whole module: the only static statement is a constant declaration.\<close>

lemma static_stmt_cases:
  assumes "static_stmt s"
  obtains x e where "s = Const x e" and "static_expr e"
  using assms by (cases s) auto

lemma static_run_items:
  "static_module m \<Longrightarrow> run_items c1 m ex = run_items c2 m ex"
proof (induction m arbitrary: c1 c2 ex)
  case Nil
  show ?case by simp
next
  case (Cons i m)
  show ?case
  proof (cases i)
    case (ExportConst x e)
    with Cons.prems have "eval c1 e = eval c2 e" by (simp add: static_eval(1))
    with Cons ExportConst show ?thesis by (auto split: sum.splits)
  next
    case (Plain s)
    with Cons.prems have "static_stmt s" by simp
    then obtain x e where s: "s = Const x e" and e: "static_expr e"
      by (rule static_stmt_cases)
    from e have "eval c1 e = eval c2 e" by (rule static_eval(1))
    with Cons Plain s show ?thesis by (auto split: sum.splits)
  qed
qed

lemma static_run_items_total:
  "static_module m \<Longrightarrow> \<exists>r. run_items c m ex = Inr r"
proof (induction m arbitrary: c ex)
  case Nil
  show ?case by simp
next
  case (Cons i m)
  show ?case
  proof (cases i)
    case (ExportConst x e)
    with Cons.prems obtain v where "eval c e = Inr v" using static_total(1) by auto
    with Cons ExportConst show ?thesis by simp
  next
    case (Plain s)
    with Cons.prems have "static_stmt s" by simp
    then obtain x e where s: "s = Const x e" and e: "static_expr e"
      by (rule static_stmt_cases)
    from e obtain v where "eval c e = Inr v" using static_total(1) by blast
    with Cons Plain s show ?thesis by simp
  qed
qed

subsection \<open>The environment module\<close>

lemma static_environment_module: "static_module environment_module"
  by (simp add: environment_module_def)

text \<open>In every context the module exports the one value \<open>environment\<close>.\<close>

lemma run_environment_module:
  "run_module c environment_module = Inr [(''environment'', environment)]"
  by (simp add: run_module_def environment_module_def environment_def auth0_def)

lemma leaves_environment:
  "leaves environment =
     [([''production''], VBool False),
      ([''apiServerUrl''], VStr ''http://127.0.0.1:5000''),
      ([''auth0'', ''url''], VStr ''udacity2020.eu''),
      ([''auth0'', ''audience''], VStr ''coffee_shop_api''),
      ([''auth0'', ''clientId''], VStr ''XzfZoHMGLBsS6YoHQq9MJYu56QwhA49o''),
      ([''auth0'', ''callbackURL''], VStr ''http://127.0.0.1:8100/callback'')]"
  by (simp add: environment_def auth0_def)

lemma string_fields_environment:
  "string_fields environment =
     [([''apiServerUrl''], ''http://127.0.0.1:5000''),
      ([''auth0'', ''url''], ''udacity2020.eu''),
      ([''auth0'', ''audience''], ''coffee_shop_api''),
      ([''auth0'', ''clientId''], ''XzfZoHMGLBsS6YoHQq9MJYu56QwhA49o''),
      ([''auth0'', ''callbackURL''], ''http://127.0.0.1:8100/callback'')]"
  by (simp add: string_fields_def leaves_environment)

subsection \<open>Content of the exported object\<close>

text \<open>
  Claim C1, as stated: the module exports exactly one configuration object, whose content
  is an API base URL, an Auth0 domain, an audience identifier, a client identifier and a
  callback URL, and nothing else. It fails: the object also carries the boolean
  \<open>production\<close>, which is none of the five.
\<close>

theorem C1_counterexample:
  "\<not> (export_names environment_module = [''environment''] \<and>
      set (map fst (leaves environment)) =
        set [[''apiServerUrl''], [''auth0'', ''url''], [''auth0'', ''audience''],
             [''auth0'', ''clientId''], [''auth0'', ''callbackURL'']])"
proof
  assume a: "export_names environment_module = [''environment''] \<and>
      set (map fst (leaves environment)) =
        set [[''apiServerUrl''], [''auth0'', ''url''], [''auth0'', ''audience''],
             [''auth0'', ''clientId''], [''auth0'', ''callbackURL'']]"
  have "[''production''] \<in> set (map fst (leaves environment))"
    by (simp add: leaves_environment)
  with a have "[''production''] \<in>
        set [[''apiServerUrl''], [''auth0'', ''url''], [''auth0'', ''audience''],
             [''auth0'', ''clientId''], [''auth0'', ''callbackURL'']]"
    by simp
  then show False by simp
qed

text \<open>
  Claim C1, amended: the module exports exactly one object, \<open>environment\<close>, and the
  content of that object is a production flag (a boolean), an API base URL, an Auth0
  domain, an audience identifier, a client identifier and a callback URL (five strings),
  and nothing else.
\<close>

theorem C1_environment_content:
  "export_names environment_module = [''environment''] \<and>
   run_module c environment_module = Inr [(''environment'', environment)] \<and>
   map fst (leaves environment) =
     [[''production''], [''apiServerUrl''], [''auth0'', ''url''], [''auth0'', ''audience''],
      [''auth0'', ''clientId''], [''auth0'', ''callbackURL'']] \<and>
   get_path [''production''] environment = Some (VBool False) \<and>
   map fst (string_fields environment) =
     [[''apiServerUrl''], [''auth0'', ''url''], [''auth0'', ''audience''],
      [''auth0'', ''clientId''], [''auth0'', ''callbackURL'']]"
proof -
  have "export_names environment_module = [''environment'']"
    by (simp add: environment_module_def)
  moreover have "get_path [''production''] environment = Some (VBool False)"
    by (simp add: environment_def)
  ultimately show ?thesis
    by (simp add: run_environment_module leaves_environment string_fields_environment)
qed

text \<open>
  Claim C2, as stated: the exported value is a flat object with exactly six fields, none
  of them a nested object, each of them a scalar. It fails on both counts: the object
  has three fields, and its field \<open>auth0\<close> is an object.
\<close>

theorem C2_counterexample:
  "length (fields environment) \<noteq> 6 \<and>
   \<not> list_all is_scalar (map snd (fields environment))"
  by (simp add: environment_def auth0_def)

text \<open>
  Claim C2, amended: the exported value is one object with three fields: the scalars
  \<open>production\<close>, a boolean, and \<open>apiServerUrl\<close>, a string, and the nested object
  \<open>auth0\<close>, whose four fields \<open>url\<close>, \<open>audience\<close>, \<open>clientId\<close> and
  \<open>callbackURL\<close> are strings. Nothing is nested deeper, so the value has six scalar
  leaves: one boolean and five strings.
\<close>

theorem C2_environment_shape:
  "keys environment = [''production'', ''apiServerUrl'', ''auth0''] \<and>
   map is_scalar (map snd (fields environment)) = [True, True, False] \<and>
   map kind_of (map snd (fields environment)) = [KBool, KStr, KObj] \<and>
   get ''auth0'' environment = Some auth0 \<and>
   keys auth0 = [''url'', ''audience'', ''clientId'', ''callbackURL''] \<and>
   map is_scalar (map snd (fields auth0)) = [True, True, True, True] \<and>
   map kind_of (map snd (fields auth0)) = [KStr, KStr, KStr, KStr] \<and>
   length (leaves environment) = 6 \<and>
   map is_scalar (map snd (leaves environment)) = [True, True, True, True, True, True] \<and>
   map (\<lambda>(p, v). (p, kind_of v)) (leaves environment) =
     [([''production''], KBool),
      ([''apiServerUrl''], KStr),
      ([''auth0'', ''url''], KStr),
      ([''auth0'', ''audience''], KStr),
      ([''auth0'', ''clientId''], KStr),
      ([''auth0'', ''callbackURL''], KStr)]"
proof -
  have "keys environment = [''production'', ''apiServerUrl'', ''auth0'']"
    and "map is_scalar (map snd (fields environment)) = [True, True, False]"
    and "map kind_of (map snd (fields environment)) = [KBool, KStr, KObj]"
    and "get ''auth0'' environment = Some auth0"
    by (simp_all add: keys_def environment_def auth0_def)
  moreover have "keys auth0 = [''url'', ''audience'', ''clientId'', ''callbackURL'']"
    and "map is_scalar (map snd (fields auth0)) = [True, True, True, True]"
    and "map kind_of (map snd (fields auth0)) = [KStr, KStr, KStr, KStr]"
    by (simp_all add: keys_def auth0_def)
  ultimately show ?thesis by (simp add: leaves_environment)
qed

subsection \<open>Evaluation of the module\<close>

text \<open>
  Claim C3: evaluating the module involves no control flow and no computation. The
  module is static (literals only: no identifier, no conditional, no \<^verbatim>\<open>throw\<close>, no
  \<^verbatim>\<open>try\<close>), and any two evaluations, in any two contexts, give the same exports.
\<close>

theorem C3_static_constant:
  "static_module environment_module \<and>
   run_module c1 environment_module = run_module c2 environment_module"
  unfolding run_module_def
  using static_environment_module static_run_items [OF static_environment_module]
  by simp

text \<open>
  Claim C4: evaluating the declaration cannot fail. In every context the run of the
  module returns its export, the object \<open>environment\<close>, and is never an error.
\<close>

theorem C4_never_raises:
  "run_module c environment_module = Inr [(''environment'', environment)] \<and>
   (\<forall>err. run_module c environment_module \<noteq> Inl err)"
  by (simp add: run_environment_module)

text \<open>
  Claim C5: the module performs no failure handling. Its only item is the exported
  declaration: no statement of it raises or catches an error, and the properties of
  the exported object are the six configuration values and no other (none is a retry,
  recovery or partial-failure setting).
\<close>

theorem C5_no_failure_handling:
  "failure_items environment_module = [] \<and>
   length environment_module = 1 \<and>
   export_names environment_module = [''environment''] \<and>
   map fst (leaves environment) =
     [[''production''], [''apiServerUrl''], [''auth0'', ''url''], [''auth0'', ''audience''],
      [''auth0'', ''clientId''], [''auth0'', ''callbackURL'']]"
proof -
  have "failure_items environment_module = []"
    and "length environment_module = 1"
    and "export_names environment_module = [''environment'']"
    by (simp_all add: environment_module_def)
  then show ?thesis by (simp add: leaves_environment)
qed

subsection \<open>The values of the fields\<close>

text \<open>
  Claim C6: the exported configuration sets the production flag to false,
  \<open>environment.production = false\<close>.
\<close>

theorem C6_production_false:
  "get ''production'' environment = Some (VBool False)"
  by (simp add: environment_def)

text \<open>
  Claim C7, as stated: \<open>apiServerUrl\<close> is \<^verbatim>\<open>http://127.0.0.1:5000\<close>,
  \<open>auth0.callbackURL\<close> is \<^verbatim>\<open>http://127.0.0.1:8100/callback\<close>, and the configuration
  targets only local services: each of the three fields that name a network target
  (the API server, the Auth0 domain, the callback) names a loopback host. It fails at
  \<open>auth0.url\<close>, the Auth0 domain \<^verbatim>\<open>udacity2020.eu\<close>.
\<close>

theorem C7_counterexample:
  "\<not> (get_path [''apiServerUrl''] environment = Some (VStr ''http://127.0.0.1:5000'') \<and>
      get_path [''auth0'', ''callbackURL''] environment
        = Some (VStr ''http://127.0.0.1:8100/callback'') \<and>
      loopback_at [''apiServerUrl''] environment \<and>
      loopback_at [''auth0'', ''url''] environment \<and>
      loopback_at [''auth0'', ''callbackURL''] environment)"
proof -
  have "host_at [''auth0'', ''url''] environment = Some ''udacity2020.eu''"
    by (simp add: host_at_def target_host_def is_url_def environment_def auth0_def)
  then have "\<not> loopback_at [''auth0'', ''url''] environment"
    by (simp add: loopback_at_def is_loopback_def)
  then show ?thesis by simp
qed

text \<open>
  Claim C7, amended: both URL-valued fields point at the loopback host. \<open>apiServerUrl\<close>
  is \<^verbatim>\<open>http://127.0.0.1:5000\<close>, \<open>auth0.callbackURL\<close> is
  \<^verbatim>\<open>http://127.0.0.1:8100/callback\<close>, these two are the only string fields that hold a
  URL, and the host of each is \<^verbatim>\<open>127.0.0.1\<close>: the API server and the callback are local
  services. The Auth0 domain \<open>auth0.url\<close> is \<^verbatim>\<open>udacity2020.eu\<close>, which is no loopback
  host.
\<close>

theorem C7_urls_loopback:
  "get_path [''apiServerUrl''] environment = Some (VStr ''http://127.0.0.1:5000'') \<and>
   get_path [''auth0'', ''callbackURL''] environment
     = Some (VStr ''http://127.0.0.1:8100/callback'') \<and>
   [(p, url_host s). (p, s) \<leftarrow> string_fields environment, is_url s]
     = [([''apiServerUrl''], ''127.0.0.1''), ([''auth0'', ''callbackURL''], ''127.0.0.1'')] \<and>
   loopback_at [''apiServerUrl''] environment \<and>
   loopback_at [''auth0'', ''callbackURL''] environment \<and>
   get_path [''auth0'', ''url''] environment = Some (VStr ''udacity2020.eu'') \<and>
   host_at [''auth0'', ''url''] environment = Some ''udacity2020.eu'' \<and>
   \<not> loopback_at [''auth0'', ''url''] environment"
proof -
  have paths: "get_path [''apiServerUrl''] environment = Some (VStr ''http://127.0.0.1:5000'')"
    "get_path [''auth0'', ''callbackURL''] environment
       = Some (VStr ''http://127.0.0.1:8100/callback'')"
    "get_path [''auth0'', ''url''] environment = Some (VStr ''udacity2020.eu'')"
    by (simp_all add: environment_def auth0_def)
  have hosts: "url_host ''http://127.0.0.1:5000'' = ''127.0.0.1''"
    "url_host ''http://127.0.0.1:8100/callback'' = ''127.0.0.1''"
    by (simp_all add: url_host_def url_authority_def after_userinfo_def)
  have urls: "is_url ''http://127.0.0.1:5000''" "is_url ''http://127.0.0.1:8100/callback''"
    "\<not> is_url ''udacity2020.eu''" "\<not> is_url ''coffee_shop_api''"
    "\<not> is_url ''XzfZoHMGLBsS6YoHQq9MJYu56QwhA49o''"
    by (simp_all add: is_url_def)
  have "[(p, url_host s). (p, s) \<leftarrow> string_fields environment, is_url s]
     = [([''apiServerUrl''], ''127.0.0.1''), ([''auth0'', ''callbackURL''], ''127.0.0.1'')]"
    by (simp add: string_fields_environment hosts urls)
  moreover have api: "host_at [''apiServerUrl''] environment = Some ''127.0.0.1''"
    unfolding host_at_def paths by (simp add: target_host_def urls hosts)
  moreover have cb: "host_at [''auth0'', ''callbackURL''] environment = Some ''127.0.0.1''"
    unfolding host_at_def paths by (simp add: target_host_def urls hosts)
  moreover have dom: "host_at [''auth0'', ''url''] environment = Some ''udacity2020.eu''"
    unfolding host_at_def paths by (simp add: target_host_def urls)
  moreover have "loopback_at [''apiServerUrl''] environment"
    and "loopback_at [''auth0'', ''callbackURL''] environment"
    and "\<not> loopback_at [''auth0'', ''url''] environment"
    unfolding loopback_at_def api cb dom by (simp_all add: is_loopback_def)
  ultimately show ?thesis using paths by simp
qed

text \<open>
  Claim C8: every string-valued field of the exported object (\<open>apiServerUrl\<close>,
  \<open>auth0.url\<close>, \<open>auth0.audience\<close>, \<open>auth0.clientId\<close>, \<open>auth0.callbackURL\<close>) is a
  non-empty string.
\<close>

theorem C8_strings_nonempty:
  "map (\<lambda>(p, s). (p, s \<noteq> [])) (string_fields environment) =
     [([''apiServerUrl''], True), ([''auth0'', ''url''], True),
      ([''auth0'', ''audience''], True), ([''auth0'', ''clientId''], True),
      ([''auth0'', ''callbackURL''], True)] \<and>
   [] \<notin> set (map snd (string_fields environment))"
  by (simp add: string_fields_environment)

end
